theory Spec2Isabelle
  imports Main "HOL-Library.Word"
begin

section \<open>Strings, paths and log records\<close>

text \<open>
  A Python \<open>str\<close> is modelled as the list of its code points, restricted to the
  code points below 256 (one \<open>char\<close> each). \<open>bytes\<close> is a list of 8-bit words.
\<close>

type_synonym bytes = "8 word list"

datatype level = DEBUG | INFO | WARNING | ERROR

type_synonym log_record = "level \<times> string"

text \<open>
  \<open>str.isspace\<close> on the code points below 256: U+0009 to U+000D, U+001C to U+001F,
  U+0020, U+0085 and U+00A0.
\<close>

definition isspace :: "char \<Rightarrow> bool" where
  "isspace c = ((of_char c :: nat) \<in> set [9, 10, 11, 12, 13, 28, 29, 30, 31, 32, 133, 160])"

text \<open>\<open>str.strip()\<close>: whitespace removed from both ends.\<close>

definition strip :: "string \<Rightarrow> string" where
  "strip s = rev (dropWhile isspace (rev (dropWhile isspace s)))"

text \<open>\<open>str.split(sep)\<close> for a one-character separator.\<close>

fun split_sep :: "char \<Rightarrow> string \<Rightarrow> string list" where
  "split_sep c [] = [[]]"
| "split_sep c (x # xs) =
     (if x = c then [] # split_sep c xs
      else (case split_sep c xs of
              [] \<Rightarrow> [[x]]
            | w # ws \<Rightarrow> (x # w) # ws))"

text \<open>\<open>sep.join(parts)\<close>.\<close>

fun join_sep :: "string \<Rightarrow> string list \<Rightarrow> string" where
  "join_sep sep [] = []"
| "join_sep sep [p] = p"
| "join_sep sep (p # q # ps) = p @ sep @ join_sep sep (q # ps)"

text \<open>
  \<open>pathlib.Path\<close> in its POSIX flavour: a root (\<open>''''\<close>, \<open>''/''\<close> or \<open>''//''\<close>) and the
  list of the components, with empty and \<open>.\<close> components dropped. \<open>pathlib\<close> keeps
  a \<open>..\<close> component as it is; the operating system resolves it when the path is used
  (see \<open>resolve\<close> below).
\<close>

datatype path = PosixPath (anchor: string) (parts: "string list")

text \<open>\<open>posixpath.splitroot\<close>, the root it returns.\<close>

definition splitroot :: "string \<Rightarrow> string" where
  "splitroot p =
     (if take 1 p \<noteq> ''/'' then ''''
      else if take 1 (drop 1 p) \<noteq> ''/'' \<or> take 1 (drop 2 p) = ''/'' then ''/''
      else ''//'')"

definition parse_path :: "string \<Rightarrow> path" where
  "parse_path s =
     PosixPath (splitroot s) (filter (\<lambda>x. x \<noteq> [] \<and> x \<noteq> ''.'') (split_sep CHR ''/'' s))"

text \<open>\<open>str(path)\<close>.\<close>

definition path_str :: "path \<Rightarrow> string" where
  "path_str p =
     (if parts p = [] then (if anchor p = [] then ''.'' else anchor p)
      else anchor p @ join_sep ''/'' (parts p))"

text \<open>\<open>path.name\<close>: the last component, or the empty string when there is none.\<close>

definition path_name :: "path \<Rightarrow> string" where
  "path_name p = (if parts p = [] then [] else last (parts p))"

text \<open>\<open>posixpath.join(a, b)\<close> and \<open>path / key\<close>.\<close>

definition posix_join :: "string \<Rightarrow> string \<Rightarrow> string" where
  "posix_join a b =
     (if take 1 b = ''/'' then b
      else if a = [] \<or> last a = CHR ''/'' then a @ b
      else a @ ''/'' @ b)"

definition truediv :: "path \<Rightarrow> string \<Rightarrow> path" where
  "truediv p key = parse_path (posix_join (path_str p) key)"

section \<open>report.py: the report descriptor\<close>

record Report =
  report_ref :: string
  output_format :: string
  output_folder :: "string option"
  custom_report_name :: "string option"
  refresh :: bool

text \<open>
  The truth value Python gives an optional string in \<open>if self.output_folder:\<close>:
  \<open>None\<close> and the empty string are false.
\<close>

definition truthy :: "string option \<Rightarrow> bool" where
  "truthy v = (case v of None \<Rightarrow> False | Some s \<Rightarrow> s \<noteq> [])"

definition strip_warning :: "string \<Rightarrow> string \<Rightarrow> string \<Rightarrow> string" where
  "strip_warning attribute_name val stripped_value =
     ''Leading or trailing space removed from '' @ attribute_name @ '': '' @ [CHR 0x27] @ val
       @ [CHR 0x27] @ '' -> '' @ [CHR 0x27] @ stripped_value @ [CHR 0x27] @ ''. ''
       @ ''To avoid this warning, please consider correcting the input at the source.''"

text \<open>\<open>Report._strip_and_log\<close>: the stripped value and the log records emitted.\<close>

definition strip_and_log :: "string \<Rightarrow> string \<Rightarrow> string \<times> log_record list" where
  "strip_and_log val attribute_name =
     (let stripped_value = strip val
      in (stripped_value,
          if stripped_value \<noteq> val
          then [(WARNING, strip_warning attribute_name val stripped_value)]
          else []))"

text \<open>
  \<open>Report.__post_init__\<close>: the two required fields are always stripped, the two optional
  ones only when they are truthy.
\<close>

definition post_init :: "Report \<Rightarrow> Report \<times> log_record list" where
  "post_init self =
     (let (ref, l1) = strip_and_log (report_ref self) ''report_ref'';
          (fmt, l2) = strip_and_log (output_format self) ''output_format'';
          (folder, l3) =
             (if truthy (output_folder self)
              then (let (v, l) = strip_and_log (the (output_folder self)) ''output_folder''
                    in (Some v, l))
              else (output_folder self, []));
          (custom, l4) =
             (if truthy (custom_report_name self)
              then (let (v, l) = strip_and_log (the (custom_report_name self)) ''custom_report_name''
                    in (Some v, l))
              else (custom_report_name self, []))
      in (self\<lparr>report_ref := ref, output_format := fmt, output_folder := folder,
                custom_report_name := custom\<rparr>,
          l1 @ l2 @ l3 @ l4))"

text \<open>The dataclass constructor: the fields are stored, then \<open>__post_init__\<close> runs.\<close>

definition Report_init ::
  "string \<Rightarrow> string \<Rightarrow> string option \<Rightarrow> string option \<Rightarrow> bool \<Rightarrow> Report \<times> log_record list" where
  "Report_init ref fmt folder custom refr =
     post_init \<lparr>report_ref = ref, output_format = fmt, output_folder = folder,
                custom_report_name = custom, refresh = refr\<rparr>"

text \<open>\<open>execution_options\<close>: the values of \<open>async\<close>, \<open>useMtom\<close> and \<open>refresh\<close>.\<close>

definition execution_options :: "Report \<Rightarrow> bool \<times> bool \<times> bool" where
  "execution_options self = (True, False, refresh self)"

definition generate_report_name :: "Report \<Rightarrow> string" where
  "generate_report_name self = path_name (parse_path (report_ref self))"

definition report_name :: "Report \<Rightarrow> string" where
  "report_name self =
     (if truthy (custom_report_name self) then the (custom_report_name self)
      else generate_report_name self)"

definition original_name :: "Report \<Rightarrow> string" where
  "original_name self = generate_report_name self"

section \<open>exceptions.py and the exceptions of the collaborators\<close>

text \<open>
  The exceptions that the code raises or lets through, as values. \<open>Fault\<close> is
  \<open>zeep.exceptions.Fault\<close> with its message; \<open>OtherException\<close> is any other exception a
  collaborator raises. The three domain errors carry their message and the exception they
  were raised \<open>from\<close> (their \<open>__cause__\<close>), when there is one. \<open>TimeoutError\<close> carries the
  two numbers its message is formatted from: the elapsed whole seconds and the timeout.
\<close>

datatype error =
    Fault string
  | OtherException string
  | ValueError string
  | TypeError
  | TimeoutError int int
  | FileExistsError string
  | FileNotFoundError
  | NotADirectoryError
  | IsADirectoryError
  | LogonFailedError string error
  | LogoffFailedError string error
  | ExportFailedError string "error option"

text \<open>What a call of a remote operation does: it returns, or it raises.\<close>

datatype 'a outcome = Returns 'a | RaisesFault string | RaisesException string

fun raised :: "'a outcome \<Rightarrow> error + 'a" where
  "raised (Returns v) = Inr v"
| "raised (RaisesFault m) = Inl (Fault m)"
| "raised (RaisesException m) = Inl (OtherException m)"

section \<open>session_manager.py: the session scope\<close>

record OBIEESession =
  username :: string
  password :: "string option"
  session_id :: "string option"

text \<open>The calls made on the session service, in order.\<close>

datatype session_call = Logon string "string option" | Logoff string

definition OBIEESession_init :: "string \<Rightarrow> string \<Rightarrow> OBIEESession" where
  "OBIEESession_init user pw = \<lparr>username = user, password = Some pw, session_id = None\<rparr>"

text \<open>
  \<open>__enter__\<close>, given what the \<open>logon\<close> call does: the result or the exception raised, the
  session afterwards and the calls made. The \<open>finally\<close> clause clears the password on
  every path.
\<close>

definition enter ::
  "string outcome \<Rightarrow> OBIEESession \<Rightarrow> (error + string) \<times> OBIEESession \<times> session_call list" where
  "enter logon self =
     (let calls = [Logon (username self) (password self)]
      in case logon of
           Returns tok \<Rightarrow>
             (Inr tok, self\<lparr>session_id := Some tok, password := None\<rparr>, calls)
         | RaisesFault m \<Rightarrow>
             (Inl (LogonFailedError (''Logon failed. '' @ m) (Fault m)),
              self\<lparr>password := None\<rparr>, calls)
         | RaisesException m \<Rightarrow>
             (Inl (OtherException m), self\<lparr>password := None\<rparr>, calls))"

text \<open>
  \<open>__exit__\<close>, given what a \<open>logoff\<close> call would do. Nothing happens unless the stored
  session id is truthy; the \<open>finally\<close> clause clears it whatever \<open>logoff\<close> did.
\<close>

definition exit ::
  "unit outcome \<Rightarrow> OBIEESession \<Rightarrow> (error + unit) \<times> OBIEESession \<times> session_call list" where
  "exit logoff self =
     (if truthy (session_id self)
      then (let calls = [Logoff (the (session_id self))];
                cleared = self\<lparr>session_id := None\<rparr>
            in case logoff of
                 Returns u \<Rightarrow> (Inr (), cleared, calls)
               | RaisesFault m \<Rightarrow>
                   (Inl (LogoffFailedError (''Logoff failed. '' @ m) (Fault m)), cleared, calls)
               | RaisesException m \<Rightarrow> (Inl (OtherException m), cleared, calls))
      else (Inr (), self, []))"

text \<open>
  The \<open>with\<close> statement around a body that returns: \<open>__exit__\<close> runs only when
  \<open>__enter__\<close> has returned.
\<close>

definition with_session ::
  "string outcome \<Rightarrow> unit outcome \<Rightarrow> OBIEESession
     \<Rightarrow> (error + unit) \<times> OBIEESession \<times> session_call list" where
  "with_session logon logoff self =
     (case enter logon self of
        (Inl e, s1, c1) \<Rightarrow> (Inl e, s1, c1)
      | (Inr tok, s1, c1) \<Rightarrow>
          (case exit logoff s1 of (r, s2, c2) \<Rightarrow> (r, s2, c1 @ c2)))"

text \<open>\<open>__exit__\<close> called again and again, each time with what \<open>logoff\<close> would do then.\<close>

fun exits :: "unit outcome list \<Rightarrow> OBIEESession \<Rightarrow> OBIEESession \<times> session_call list" where
  "exits [] self = (self, [])"
| "exits (logoff # rest) self =
     (case exit logoff self of
        (r, s1, c1) \<Rightarrow> (case exits rest s1 of (s2, c2) \<Rightarrow> (s2, c1 @ c2)))"

fun is_logoff :: "session_call \<Rightarrow> bool" where
  "is_logoff (Logoff tok) = True"
| "is_logoff (Logon user pw) = False"

section \<open>obiee_analysis_export.py: the export orchestrator\<close>

record OBIEEAnalysisExporter =
  timeout :: int
  overwrite_existing :: bool
  status_check_interval :: int

text \<open>What \<open>completeAnalysisExport\<close> returns.\<close>

record export_result =
  exportStatus :: string
  viewData :: bytes
  mimeType :: string

text \<open>
  The file system, as the operating system sees it: a map from resolved paths to
  entries, without symbolic links. A resolved path has no \<open>..\<close> component, except that
  a relative one may begin with a run of them (a directory above the current one). A
  resolved path made of nothing but such components (the current directory, a directory
  above it, or the root) always is a directory.
\<close>

datatype entry = Dir | File bytes

type_synonym filesystem = "path \<Rightarrow> entry option"

definition dir_at :: "filesystem \<Rightarrow> path \<Rightarrow> bool" where
  "dir_at files k = (list_all (\<lambda>c. c = ''..'') (parts k) \<or> files k = Some Dir)"

definition present_at :: "filesystem \<Rightarrow> path \<Rightarrow> bool" where
  "present_at files k = (dir_at files k \<or> files k \<noteq> None)"

text \<open>
  How the operating system resolves a path, component after component: \<open>..\<close> steps to
  the parent directory (the root is its own parent), any other component steps down.
  Every directory that is passed through must exist and be a directory; the last
  component need not exist.
\<close>

definition step :: "string \<Rightarrow> string list \<Rightarrow> string \<Rightarrow> string list" where
  "step a st c =
     (if c \<noteq> ''..'' then st @ [c]
      else if st = [] \<or> last st = ''..'' then (if a = [] then st @ [c] else st)
      else butlast st)"

fun walk :: "filesystem \<Rightarrow> string \<Rightarrow> string list \<Rightarrow> string list \<Rightarrow> error + string list" where
  "walk files a st [] = Inr st"
| "walk files a st (c # cs) =
     (if dir_at files (PosixPath a st) then walk files a (step a st c) cs
      else if files (PosixPath a st) = None then Inl FileNotFoundError
      else Inl NotADirectoryError)"

definition resolve :: "filesystem \<Rightarrow> path \<Rightarrow> error + path" where
  "resolve files p =
     (case walk files (anchor p) [] (parts p) of
        Inl e \<Rightarrow> Inl e
      | Inr st \<Rightarrow> Inr (PosixPath (anchor p) st))"

text \<open>\<open>path.is_dir()\<close> and \<open>path.exists()\<close>: false when the path does not resolve.\<close>

definition is_dir :: "filesystem \<Rightarrow> path \<Rightarrow> bool" where
  "is_dir files p = (case resolve files p of Inl e \<Rightarrow> False | Inr k \<Rightarrow> dir_at files k)"

definition path_exists :: "filesystem \<Rightarrow> path \<Rightarrow> bool" where
  "path_exists files p = (case resolve files p of Inl e \<Rightarrow> False | Inr k \<Rightarrow> present_at files k)"

text \<open>\<open>path.parent\<close>: the path without its last component.\<close>

definition parent :: "path \<Rightarrow> path" where
  "parent p = PosixPath (anchor p) (butlast (parts p))"

text \<open>\<open>os.mkdir(path)\<close>: the path must resolve, and nothing may be there yet.\<close>

definition os_mkdir :: "filesystem \<Rightarrow> path \<Rightarrow> error + filesystem" where
  "os_mkdir files p =
     (case resolve files p of
        Inl e \<Rightarrow> Inl e
      | Inr k \<Rightarrow>
          (if present_at files k then Inl (FileExistsError (path_str p))
           else Inr (files(k := Some Dir))))"

text \<open>
  \<open>path.mkdir(parents=False, exist_ok=True)\<close>: a missing parent is an error; any other
  error of \<open>os.mkdir\<close> is ignored when the path is a directory.
\<close>

definition mkdir_exist_ok :: "filesystem \<Rightarrow> path \<Rightarrow> error + filesystem" where
  "mkdir_exist_ok files p =
     (case os_mkdir files p of
        Inr fs \<Rightarrow> Inr fs
      | Inl e \<Rightarrow>
          (if e = FileNotFoundError then Inl e
           else if is_dir files p then Inr files
           else Inl e))"

text \<open>
  \<open>path.mkdir(parents=True, exist_ok=True)\<close>, as \<open>pathlib\<close> does it: \<open>os.mkdir\<close> is
  tried first; when a parent is missing, the parent is made in the same way and the path
  itself is made after it; any other error is ignored when the path is a directory.
\<close>

function mkdir_parents :: "filesystem \<Rightarrow> path \<Rightarrow> error + filesystem" where
  "mkdir_parents files p =
     (case os_mkdir files p of
        Inr fs \<Rightarrow> Inr fs
      | Inl e \<Rightarrow>
          (if e = FileNotFoundError
           then (if parts p = [] then Inl e
                 else (case mkdir_parents files (parent p) of
                         Inl e1 \<Rightarrow> Inl e1
                       | Inr fs1 \<Rightarrow> mkdir_exist_ok fs1 p))
           else if is_dir files p then Inr files
           else Inl e))"
  by pat_completeness auto
termination
  by (relation "measure (\<lambda>(files, p). length (parts p))") (auto simp: parent_def)

declare mkdir_parents.simps [simp del]

text \<open>\<open>open(path, "wb")\<close> followed by \<open>write(data)\<close>.\<close>

definition open_write :: "filesystem \<Rightarrow> path \<Rightarrow> bytes \<Rightarrow> error + filesystem" where
  "open_write files p data =
     (case resolve files p of
        Inl e \<Rightarrow> Inl e
      | Inr k \<Rightarrow>
          (if dir_at files k then Inl IsADirectoryError
           else Inr (files(k := Some (File data)))))"

text \<open>One file system extends another: what is there in the first is unchanged in the second.\<close>

definition extends :: "filesystem \<Rightarrow> filesystem \<Rightarrow> bool" where
  "extends f g = (\<forall>k. present_at f k \<longrightarrow> g k = f k)"

text \<open>What the code does to its collaborators, in order.\<close>

datatype event =
    InitiateExport string string "bool \<times> bool \<times> bool"
  | StatusQuery string
  | Sleep int
  | Mkdir path
  | Exists path
  | Write path bytes

text \<open>
  The world of one export call. \<open>initiate\<close> is what \<open>initiateAnalysisExport\<close> does (the
  query id it returns); \<open>start_time\<close> is the clock reading taken before the polling loop;
  \<open>polls\<close> is what the successive calls of \<open>completeAnalysisExport\<close> do, each with the
  clock reading taken right after it (clock readings are in microseconds); \<open>files\<close> is
  the file system and \<open>trace\<close> the events so far.
\<close>

type_synonym poll = "export_result outcome \<times> int"

record world =
  initiate :: "string outcome"
  start_time :: int
  polls :: "poll list"
  files :: filesystem
  trace :: "event list"

text \<open>
  \<open>int(elapsed_time)\<close>, where \<open>elapsed_time\<close> is a difference of clock readings in
  seconds: the whole seconds, rounded towards zero.
\<close>

definition whole_seconds :: "int \<Rightarrow> int" where
  "whole_seconds us = (if 0 \<le> us then us div 1000000 else - ((- us) div 1000000))"

text \<open>
  \<open>_get_extension\<close>. The table of \<open>mimetypes.guess_extension(mime_type, strict=True)\<close>
  belongs to the Python library: it is the parameter \<open>guess_extension\<close>, which gives
  \<open>None\<close> for a MIME type without an extension.
\<close>

definition get_extension :: "(string \<Rightarrow> string option) \<Rightarrow> string \<Rightarrow> string option" where
  "get_extension guess_extension mime_type = guess_extension mime_type"

text \<open>\<open>_initiate_export\<close>: the query id, or the exception of the remote call.\<close>

definition initiate_export :: "Report \<Rightarrow> world \<Rightarrow> (error + string) \<times> world" where
  "initiate_export report w =
     (raised (initiate w),
      w\<lparr>trace := trace w @ [InitiateExport (report_ref report) (output_format report)
                                (execution_options report)]\<rparr>)"

text \<open>
  The loop of \<open>_wait_for_export_completion\<close>, over the polls that remain. Each iteration
  queries the status, then checks the elapsed time, then looks at the status. The result
  is \<open>None\<close> when the loop is still running after the last of the given polls.
  \<open>time.sleep\<close> raises \<open>ValueError\<close> on a negative interval.
\<close>

fun wait_loop ::
  "OBIEEAnalysisExporter \<Rightarrow> string \<Rightarrow> int \<Rightarrow> poll list \<Rightarrow> event list
     \<Rightarrow> (error + export_result) option \<times> poll list \<times> event list" where
  "wait_loop self query_id start [] tr = (None, [], tr)"
| "wait_loop self query_id start ((response, now) # rest) tr =
     (let tr1 = tr @ [StatusQuery query_id]
      in case raised response of
           Inl e \<Rightarrow> (Some (Inl e), rest, tr1)
         | Inr export_result \<Rightarrow>
             (let elapsed_time = now - start
              in if elapsed_time > timeout self * 1000000
                 then (Some (Inl (TimeoutError (whole_seconds elapsed_time) (timeout self))),
                       rest, tr1)
                 else if exportStatus export_result = ''InProgress''
                 then (if status_check_interval self < 0
                       then (Some (Inl (ValueError ''sleep length must be non-negative'')),
                             rest, tr1)
                       else wait_loop self query_id start rest
                              (tr1 @ [Sleep (status_check_interval self)]))
                 else if exportStatus export_result = ''Error''
                 then (Some (Inl (ExportFailedError
                         (''Export failed with an error. OBIEE returned exportStatus ''
                            @ [CHR 0x27] @ ''Error'' @ [CHR 0x27] @ ''.'') None)),
                       rest, tr1)
                 else if exportStatus export_result = ''Done''
                 then (Some (Inr export_result), rest, tr1)
                 else (Some (Inl (ValueError
                         (''OBIEE returned an unknown exportStatus: ''
                            @ exportStatus export_result))),
                       rest, tr1)))"

definition wait_for_export_completion ::
  "OBIEEAnalysisExporter \<Rightarrow> string \<Rightarrow> world \<Rightarrow> (error + export_result) option \<times> world" where
  "wait_for_export_completion self query_id w =
     (case wait_loop self query_id (start_time w) (polls w) (trace w) of
        (r, rest, tr) \<Rightarrow> (r, w\<lparr>polls := rest, trace := tr\<rparr>))"

text \<open>
  The two \<open>except\<close> clauses of \<open>_export_report\<close>: a \<open>Fault\<close> keeps its text, every other
  exception becomes the plain message; the exception caught is the cause.
\<close>

fun export_failed :: "error \<Rightarrow> error" where
  "export_failed (Fault m) = ExportFailedError (''Export failed. '' @ m) (Some (Fault m))"
| "export_failed e = ExportFailedError ''Export failed.'' (Some e)"

text \<open>
  \<open>_export_report\<close>: the initiation and the polling loop both run inside the \<open>try\<close>, so
  every exception either of them raises goes through \<open>export_failed\<close>.
\<close>

definition export_report ::
  "OBIEEAnalysisExporter \<Rightarrow> Report \<Rightarrow> world \<Rightarrow> (error + export_result) option \<times> world" where
  "export_report self report w =
     (case initiate_export report w of
        (Inl e, w1) \<Rightarrow> (Some (Inl (export_failed e)), w1)
      | (Inr query_id, w1) \<Rightarrow>
          (case wait_for_export_completion self query_id w1 of
             (None, w2) \<Rightarrow> (None, w2)
           | (Some (Inl e), w2) \<Rightarrow> (Some (Inl (export_failed e)), w2)
           | (Some (Inr export_result), w2) \<Rightarrow> (Some (Inr export_result), w2)))"

text \<open>
  \<open>export_to_file_like_object\<close>: the contents of the stream and the extension, which is
  whatever \<open>_get_extension\<close> gives.
\<close>

definition export_to_file_like_object ::
  "(string \<Rightarrow> string option) \<Rightarrow> OBIEEAnalysisExporter \<Rightarrow> Report \<Rightarrow> world
     \<Rightarrow> (error + bytes \<times> string option) option \<times> world" where
  "export_to_file_like_object guess_extension self report w =
     (case export_report self report w of
        (None, w1) \<Rightarrow> (None, w1)
      | (Some (Inl e), w1) \<Rightarrow> (Some (Inl e), w1)
      | (Some (Inr export_result), w1) \<Rightarrow>
          (Some (Inr (viewData export_result,
                      get_extension guess_extension (mimeType export_result))), w1))"

text \<open>The text an f-string puts for an optional string: \<open>None\<close> is written \<open>None\<close>.\<close>

definition format_opt :: "string option \<Rightarrow> string" where
  "format_opt v = (case v of None \<Rightarrow> ''None'' | Some s \<Rightarrow> s)"

text \<open>\<open>_get_output_file_path\<close>. \<open>Path(None)\<close> raises \<open>TypeError\<close>.\<close>

definition get_output_file_path ::
  "(string \<Rightarrow> string option) \<Rightarrow> export_result \<Rightarrow> Report \<Rightarrow> world \<Rightarrow> (error + path) \<times> world" where
  "get_output_file_path guess_extension export_result report w =
     (let extension = get_extension guess_extension (mimeType export_result)
      in case output_folder report of
           None \<Rightarrow> (Inl TypeError, w)
         | Some folder \<Rightarrow>
             (let output_folder_path = parse_path folder;
                  w1 = w\<lparr>trace := trace w @ [Mkdir output_folder_path]\<rparr>
              in case mkdir_parents (files w) output_folder_path of
                   Inl e \<Rightarrow> (Inl e, w1)
                 | Inr fs \<Rightarrow>
                     (Inr (truediv output_folder_path
                             (report_name report @ format_opt extension)),
                      w1\<lparr>files := fs\<rparr>)))"

text \<open>\<open>_write_data_to_file\<close>.\<close>

definition write_data_to_file ::
  "OBIEEAnalysisExporter \<Rightarrow> export_result \<Rightarrow> path \<Rightarrow> world \<Rightarrow> (error + unit) \<times> world" where
  "write_data_to_file self export_result output_file_path w =
     (let w1 = w\<lparr>trace := trace w @ [Exists output_file_path]\<rparr>
      in if path_exists (files w) output_file_path \<and> \<not> overwrite_existing self
         then (Inl (FileExistsError
                 (''File '' @ path_str output_file_path
                    @ '' already exists and overwriting is disabled.'')), w1)
         else (let w2 = w1\<lparr>trace := trace w1 @ [Write output_file_path (viewData export_result)]\<rparr>
               in case open_write (files w) output_file_path (viewData export_result) of
                    Inl e \<Rightarrow> (Inl e, w2)
                  | Inr fs \<Rightarrow> (Inr (), w2\<lparr>files := fs\<rparr>)))"

text \<open>\<open>_save_export\<close>.\<close>

definition save_export ::
  "(string \<Rightarrow> string option) \<Rightarrow> OBIEEAnalysisExporter \<Rightarrow> export_result \<Rightarrow> Report \<Rightarrow> world
     \<Rightarrow> (error + path) \<times> world" where
  "save_export guess_extension self export_result report w =
     (case get_output_file_path guess_extension export_result report w of
        (Inl e, w1) \<Rightarrow> (Inl e, w1)
      | (Inr output_file_path, w1) \<Rightarrow>
          (case write_data_to_file self export_result output_file_path w1 of
             (Inl e, w2) \<Rightarrow> (Inl e, w2)
           | (Inr u, w2) \<Rightarrow> (Inr output_file_path, w2)))"

text \<open>\<open>export_and_save\<close>: only a folder that is \<open>None\<close> is refused before the export.\<close>

definition export_and_save ::
  "(string \<Rightarrow> string option) \<Rightarrow> OBIEEAnalysisExporter \<Rightarrow> Report \<Rightarrow> world
     \<Rightarrow> (error + path) option \<times> world" where
  "export_and_save guess_extension self report w =
     (if output_folder report = None
      then (Some (Inl (ValueError ''Output folder is required when exporting to file.'')), w)
      else (case export_report self report w of
              (None, w1) \<Rightarrow> (None, w1)
            | (Some (Inl e), w1) \<Rightarrow> (Some (Inl e), w1)
            | (Some (Inr export_result), w1) \<Rightarrow>
                (case save_export guess_extension self export_result report w1 of
                   (r, w2) \<Rightarrow> (Some r, w2))))"

text \<open>
  A poll that leaves the loop running: it answers \<open>InProgress\<close>, and the elapsed time
  read after it does not exceed the timeout.
\<close>

fun in_progress_in_time :: "OBIEEAnalysisExporter \<Rightarrow> int \<Rightarrow> poll \<Rightarrow> bool" where
  "in_progress_in_time self start (Returns r, now) =
     (exportStatus r = ''InProgress'' \<and> \<not> now - start > timeout self * 1000000)"
| "in_progress_in_time self start (RaisesFault m, now) = False"
| "in_progress_in_time self start (RaisesException m, now) = False"


section \<open>Example values\<close>

definition example_guess_extension :: "string \<Rightarrow> string option" where
  "example_guess_extension m =
     (if m = ''text/csv'' then Some ''.csv''
      else if m = ''application/pdf'' then Some ''.pdf''
      else None)"

definition example_exporter :: OBIEEAnalysisExporter where
  "example_exporter = \<lparr>timeout = 300, overwrite_existing = False, status_check_interval = 2\<rparr>"

definition example_report :: Report where
  "example_report =
     \<lparr>report_ref = ''/shared/Sales/Revenue'', output_format = ''CSV'',
      output_folder = Some ''out'', custom_report_name = None, refresh = False\<rparr>"

definition example_result :: "string \<Rightarrow> string \<Rightarrow> export_result" where
  "example_result status mime = \<lparr>exportStatus = status, viewData = [80, 75], mimeType = mime\<rparr>"

definition example_world :: "poll list \<Rightarrow> world" where
  "example_world ps =
     \<lparr>initiate = Returns ''q1'', start_time = 0, polls = ps, files = Map.empty, trace = []\<rparr>"

definition example_files :: filesystem where
  "example_files =
     [PosixPath [] [''out''] \<mapsto> Dir, PosixPath [] [''out'', ''Revenue.csv''] \<mapsto> File [1]]"

section \<open>The report descriptor: construction\<close>

lemma strip_and_log_fst: "fst (strip_and_log v a) = strip v"
  by (simp add: strip_and_log_def Let_def)

lemma strip_and_log_snd:
  "snd (strip_and_log v a) =
     (if strip v \<noteq> v then [(WARNING, strip_warning a v (strip v))] else [])"
  by (simp add: strip_and_log_def Let_def)

lemma strip_Nil: "strip [] = []"
  by (simp add: strip_def)

text \<open>What \<open>strip\<close> returns has no whitespace at either end.\<close>

lemma strip_trimmed:
  "strip s = [] \<or> (\<not> isspace (hd (strip s)) \<and> \<not> isspace (last (strip s)))"
proof (cases "strip s = []")
  case True
  then show ?thesis by simp
next
  case False
  define zs where "zs = dropWhile isspace s"
  define ys where "ys = dropWhile isspace (rev zs)"
  have st: "strip s = rev ys" by (simp add: strip_def ys_def zs_def)
  have ys: "ys \<noteq> []" using False st by simp
  have zs: "zs \<noteq> []" using ys by (auto simp: ys_def)
  have "\<not> isspace (hd ys)" using ys unfolding ys_def by (rule hd_dropWhile)
  then have l: "\<not> isspace (last (strip s))" using ys by (simp add: st last_rev)
  have "rev zs = takeWhile isspace (rev zs) @ ys" by (simp add: ys_def)
  then have "last ys = last (rev zs)" using ys by (metis last_appendR)
  also have "\<dots> = hd zs" using zs by (simp add: last_rev)
  finally have "hd (strip s) = hd zs" using ys by (simp add: st hd_rev)
  moreover have "\<not> isspace (hd zs)" using zs unfolding zs_def by (rule hd_dropWhile)
  ultimately show ?thesis using l by simp
qed

lemma post_init_fields:
  "report_ref (fst (post_init r)) = strip (report_ref r)"
  "output_format (fst (post_init r)) = strip (output_format r)"
  "output_folder (fst (post_init r)) = map_option strip (output_folder r)"
  "custom_report_name (fst (post_init r)) = map_option strip (custom_report_name r)"
  "refresh (fst (post_init r)) = refresh r"
  by (auto simp: post_init_def split_def Let_def strip_and_log_fst truthy_def strip_Nil
           split: option.splits)

lemma post_init_logs:
  "snd (post_init r) =
     snd (strip_and_log (report_ref r) ''report_ref'')
     @ snd (strip_and_log (output_format r) ''output_format'')
     @ (case output_folder r of None \<Rightarrow> [] | Some v \<Rightarrow> snd (strip_and_log v ''output_folder''))
     @ (case custom_report_name r of None \<Rightarrow> []
        | Some v \<Rightarrow> snd (strip_and_log v ''custom_report_name''))"
  by (auto simp: post_init_def split_def Let_def strip_and_log_snd truthy_def strip_Nil
           split: option.splits)

text \<open>
  C5, as amended. Construction stores every string field stripped of its surrounding
  whitespace (so \<open>report_ref\<close> and \<open>output_format\<close> may be empty: nothing checks that
  they are not); whenever stripping changes a field's value, a warning naming the field
  is emitted, and construction emits nothing but warnings and always returns a
  descriptor.
\<close>

theorem Report_init_normalizes:
  "report_ref (fst (Report_init ref fmt folder custom refr)) = strip ref
    \<and> output_format (fst (Report_init ref fmt folder custom refr)) = strip fmt
    \<and> output_folder (fst (Report_init ref fmt folder custom refr)) = map_option strip folder
    \<and> custom_report_name (fst (Report_init ref fmt folder custom refr))
        = map_option strip custom
    \<and> (strip ref \<noteq> ref \<longrightarrow>
          (WARNING, strip_warning ''report_ref'' ref (strip ref))
            \<in> set (snd (Report_init ref fmt folder custom refr)))
    \<and> (strip fmt \<noteq> fmt \<longrightarrow>
          (WARNING, strip_warning ''output_format'' fmt (strip fmt))
            \<in> set (snd (Report_init ref fmt folder custom refr)))
    \<and> (\<forall>v. folder = Some v \<and> strip v \<noteq> v \<longrightarrow>
          (WARNING, strip_warning ''output_folder'' v (strip v))
            \<in> set (snd (Report_init ref fmt folder custom refr)))
    \<and> (\<forall>v. custom = Some v \<and> strip v \<noteq> v \<longrightarrow>
          (WARNING, strip_warning ''custom_report_name'' v (strip v))
            \<in> set (snd (Report_init ref fmt folder custom refr)))
    \<and> (\<forall>l \<in> set (snd (Report_init ref fmt folder custom refr)). fst l = WARNING)"
  unfolding Report_init_def
  by (auto simp: post_init_fields post_init_logs strip_and_log_snd split: option.splits)

text \<open>
  The descriptor built from \<open>" a/b/c "\<close>, \<open>" PDF"\<close>, the folder \<open>"out "\<close> and the name
  \<open>" rev"\<close>: \<open>report_ref\<close> is \<open>"a/b/c"\<close>, and the four warnings are emitted.
\<close>

theorem Report_init_normalizes_witness:
  "report_ref (fst (Report_init '' a/b/c '' '' PDF'' (Some ''out '') (Some '' rev'') False))
     = ''a/b/c''
   \<and> (WARNING, strip_warning ''report_ref'' '' a/b/c '' ''a/b/c'')
        \<in> set (snd (Report_init '' a/b/c '' '' PDF'' (Some ''out '') (Some '' rev'') False))
   \<and> (WARNING, strip_warning ''output_format'' '' PDF'' ''PDF'')
        \<in> set (snd (Report_init '' a/b/c '' '' PDF'' (Some ''out '') (Some '' rev'') False))
   \<and> (WARNING, strip_warning ''output_folder'' ''out '' ''out'')
        \<in> set (snd (Report_init '' a/b/c '' '' PDF'' (Some ''out '') (Some '' rev'') False))
   \<and> (WARNING, strip_warning ''custom_report_name'' '' rev'' ''rev'')
        \<in> set (snd (Report_init '' a/b/c '' '' PDF'' (Some ''out '') (Some '' rev'') False))"
  using Report_init_normalizes [of "'' a/b/c ''" "'' PDF''" "Some ''out ''" "Some '' rev''" False]
  by (simp add: strip_def isspace_def)

text \<open>
  C5 as stated fails: a \<open>report_ref\<close> of two spaces and an \<open>output_format\<close> of one space
  are accepted, and both fields are empty after construction.
\<close>

theorem Report_init_empty_counterexample:
  "report_ref (fst (Report_init ''  '' '' '' None None False)) = []
   \<and> output_format (fst (Report_init ''  '' '' '' None None False)) = []"
  by (simp add: Report_init_def post_init_fields strip_def isspace_def)

section \<open>The export orchestrator: polling\<close>

lemma initiate_export_Returns:
  "initiate w = Returns q \<Longrightarrow>
   initiate_export report w =
     (Inr q, w\<lparr>trace := trace w @ [InitiateExport (report_ref report) (output_format report)
                                     (execution_options report)]\<rparr>)"
  by (simp add: initiate_export_def)

text \<open>
  C1, as amended. When the export is initiated and the polling loop sees \<open>InProgress\<close>,
  \<open>InProgress\<close>, \<open>Done\<close>, the last one with payload \<open>P\<close> and MIME type \<open>M\<close>, and at
  none of the three polls the elapsed time exceeds the timeout, and the status-check
  interval is not negative, then \<open>export_to_file_like_object\<close> returns a stream holding
  \<open>P\<close> and the extension the strict mapping gives for \<open>M\<close>; no poll after the third is
  made.
\<close>

theorem export_to_memory_three_polls:
  assumes "initiate w = Returns q"
    and "polls w = (Returns r1, t1) # (Returns r2, t2) # (Returns r3, t3) # rest"
    and "exportStatus r1 = ''InProgress''"
    and "exportStatus r2 = ''InProgress''"
    and "exportStatus r3 = ''Done''"
    and "t1 - start_time w \<le> timeout self * 1000000"
    and "t2 - start_time w \<le> timeout self * 1000000"
    and "t3 - start_time w \<le> timeout self * 1000000"
    and "0 \<le> status_check_interval self"
  shows "fst (export_to_file_like_object gx self report w)
           = Some (Inr (viewData r3, gx (mimeType r3)))
         \<and> polls (snd (export_to_file_like_object gx self report w)) = rest"
  using assms
  by (simp add: export_to_file_like_object_def export_report_def initiate_export_Returns
        wait_for_export_completion_def get_extension_def Let_def)

theorem export_to_memory_three_polls_witness:
  "fst (export_to_file_like_object example_guess_extension example_exporter example_report
          (example_world
             [(Returns (example_result ''InProgress'' []), 1000000),
              (Returns (example_result ''InProgress'' []), 3000000),
              (Returns (example_result ''Done'' ''text/csv''), 5000000)]))
     = Some (Inr ([80, 75], Some ''.csv''))"
  using export_to_memory_three_polls [of
      "example_world
             [(Returns (example_result ''InProgress'' []), 1000000),
              (Returns (example_result ''InProgress'' []), 3000000),
              (Returns (example_result ''Done'' ''text/csv''), 5000000)]"
      "''q1''" "example_result ''InProgress'' []" 1000000
      "example_result ''InProgress'' []" 3000000
      "example_result ''Done'' ''text/csv''" 5000000 "[]"
      example_exporter example_guess_extension example_report]
  by (simp add: example_world_def example_result_def example_exporter_def
        example_guess_extension_def)

text \<open>
  C1 as stated fails: with the timeout at 300 seconds and the polls answered 100, 200
  and 301 seconds after the start, the loop sees \<open>InProgress\<close>, \<open>InProgress\<close>, \<open>Done\<close>,
  and the call raises instead of returning the payload of the third poll.
\<close>

theorem export_to_memory_late_done_counterexample:
  "fst (export_to_file_like_object example_guess_extension example_exporter example_report
          (example_world
             [(Returns (example_result ''InProgress'' []), 100000000),
              (Returns (example_result ''InProgress'' []), 200000000),
              (Returns (example_result ''Done'' ''text/csv''), 301000000)]))
     = Some (Inl (ExportFailedError ''Export failed.'' (Some (TimeoutError 301 300))))"
  by (simp add: export_to_file_like_object_def export_report_def initiate_export_def
        wait_for_export_completion_def Let_def example_world_def example_result_def
        example_exporter_def whole_seconds_def)

text \<open>
  C2, on the code. The polls stay \<open>InProgress\<close> and the second one is answered 301
  seconds after the start, with the timeout at 300. No status query follows (the two
  remaining polls are not made), but what \<open>export_to_file_like_object\<close> and
  \<open>export_and_save\<close> raise is \<open>ExportFailedError("Export failed.")\<close>: the
  \<open>TimeoutError\<close> is only its cause.
\<close>

theorem timeout_raises_export_failed:
  "fst (export_to_file_like_object example_guess_extension example_exporter example_report
          (example_world
             [(Returns (example_result ''InProgress'' []), 150000000),
              (Returns (example_result ''InProgress'' []), 301000000),
              (Returns (example_result ''InProgress'' []), 302000000),
              (Returns (example_result ''Done'' ''text/csv''), 303000000)]))
     = Some (Inl (ExportFailedError ''Export failed.'' (Some (TimeoutError 301 300))))
   \<and> polls (snd (export_to_file_like_object example_guess_extension example_exporter
          example_report
          (example_world
             [(Returns (example_result ''InProgress'' []), 150000000),
              (Returns (example_result ''InProgress'' []), 301000000),
              (Returns (example_result ''InProgress'' []), 302000000),
              (Returns (example_result ''Done'' ''text/csv''), 303000000)])))
     = [(Returns (example_result ''InProgress'' []), 302000000),
        (Returns (example_result ''Done'' ''text/csv''), 303000000)]
   \<and> fst (export_and_save example_guess_extension example_exporter example_report
          (example_world
             [(Returns (example_result ''InProgress'' []), 150000000),
              (Returns (example_result ''InProgress'' []), 301000000),
              (Returns (example_result ''InProgress'' []), 302000000),
              (Returns (example_result ''Done'' ''text/csv''), 303000000)]))
     = Some (Inl (ExportFailedError ''Export failed.'' (Some (TimeoutError 301 300))))"
  by (simp add: export_to_file_like_object_def export_and_save_def export_report_def
        initiate_export_def
        wait_for_export_completion_def Let_def example_world_def example_result_def
        example_exporter_def example_report_def whole_seconds_def)

text \<open>
  C3, on the code. The first poll answers the status \<open>Weird\<close>. What
  \<open>export_to_file_like_object\<close> and \<open>export_and_save\<close> raise is
  \<open>ExportFailedError("Export failed.")\<close>, whose message does not name the status: the
  \<open>ValueError\<close> that names it is only its cause.
\<close>

theorem unknown_status_raises_export_failed:
  "fst (export_to_file_like_object example_guess_extension example_exporter example_report
          (example_world [(Returns (example_result ''Weird'' []), 1000000)]))
     = Some (Inl (ExportFailedError ''Export failed.''
                    (Some (ValueError ''OBIEE returned an unknown exportStatus: Weird''))))
   \<and> fst (export_and_save example_guess_extension example_exporter example_report
          (example_world [(Returns (example_result ''Weird'' []), 1000000)]))
     = Some (Inl (ExportFailedError ''Export failed.''
                    (Some (ValueError ''OBIEE returned an unknown exportStatus: Weird''))))"
  by (simp add: export_to_file_like_object_def export_and_save_def export_report_def
        initiate_export_def
        wait_for_export_completion_def Let_def example_world_def example_result_def
        example_exporter_def example_report_def)

section \<open>The export orchestrator: the file extension\<close>

text \<open>
  C4, as amended. For an export result whose MIME type has no entry in the strict
  mapping, deriving the extension raises nothing and gives an absent extension
  (\<open>None\<close>), and \<open>export_to_file_like_object\<close> returns the stream together with that
  absent extension.
\<close>

theorem unmapped_mime_absent_extension:
  assumes "gx (mimeType res) = None"
    and "fst (export_report self report w) = Some (Inr res)"
  shows "get_extension gx (mimeType res) = None
         \<and> fst (export_to_file_like_object gx self report w) = Some (Inr (viewData res, None))"
  using assms
  by (auto simp: export_to_file_like_object_def get_extension_def
           split: prod.splits option.splits sum.splits)

theorem unmapped_mime_absent_extension_witness:
  "get_extension example_guess_extension ''application/x-obiee'' = None
   \<and> fst (export_to_file_like_object example_guess_extension example_exporter example_report
          (example_world [(Returns (example_result ''Done'' ''application/x-obiee''), 1000000)]))
     = Some (Inr ([80, 75], None))"
  using unmapped_mime_absent_extension [of example_guess_extension
      "example_result ''Done'' ''application/x-obiee''" example_exporter example_report
      "example_world [(Returns (example_result ''Done'' ''application/x-obiee''), 1000000)]"]
  by (simp add: example_guess_extension_def example_result_def export_report_def
        initiate_export_def wait_for_export_completion_def Let_def example_world_def
        example_exporter_def)

text \<open>
  C4 as stated fails: the export of a result with the unmapped MIME type
  \<open>application/x-obiee\<close> returns, with the extension \<open>None\<close>.
\<close>

theorem unmapped_mime_no_error_counterexample:
  "fst (export_to_file_like_object example_guess_extension example_exporter example_report
          (example_world [(Returns (example_result ''Done'' ''application/x-obiee''), 1000000)]))
     = Some (Inr ([80, 75], None))"
  by (simp add: export_to_file_like_object_def export_report_def
        initiate_export_def get_extension_def example_guess_extension_def
        wait_for_export_completion_def Let_def example_world_def example_result_def
        example_exporter_def example_report_def)

section \<open>The report descriptor: names\<close>

lemma split_sep_nonempty: "split_sep c s \<noteq> []"
  by (induction s) (auto split: list.splits)

lemma split_sep_no_sep: "c \<notin> set s \<Longrightarrow> split_sep c s = [s]"
  by (induction s) auto

lemma split_sep_append: "split_sep c (d @ c # s) = split_sep c d @ split_sep c s"
  by (induction d) (auto split: list.splits simp: split_sep_nonempty)

lemma path_name_final_segment:
  assumes "CHR ''/'' \<notin> set seg" "seg \<noteq> []" "seg \<noteq> ''.''"
  shows "path_name (parse_path (d @ CHR ''/'' # seg)) = seg"
  using assms by (simp add: path_name_def parse_path_def split_sep_append split_sep_no_sep)

text \<open>
  C8, as amended. \<open>report_name\<close> is \<open>custom_report_name\<close> whenever that is set to a
  non-empty string, whatever \<open>report_ref\<close> is, and the final path segment of
  \<open>report_ref\<close> otherwise, that is when \<open>custom_report_name\<close> is \<open>None\<close> or the empty
  string. \<open>original_name\<close> always is the final path segment of \<open>report_ref\<close>: the name
  \<open>pathlib\<close> gives the path, which for a reference ending in \<open>/seg\<close> is \<open>seg\<close>.
\<close>

theorem report_name_resolution:
  "(\<forall>n. custom_report_name r = Some n \<and> n \<noteq> [] \<longrightarrow> report_name r = n)
   \<and> (custom_report_name r = None \<or> custom_report_name r = Some []
        \<longrightarrow> report_name r = path_name (parse_path (report_ref r)))
   \<and> original_name r = path_name (parse_path (report_ref r))
   \<and> (\<forall>d seg. report_ref r = d @ ''/'' @ seg \<and> CHR ''/'' \<notin> set seg \<and> seg \<noteq> [] \<and> seg \<noteq> ''.''
        \<longrightarrow> original_name r = seg)"
  by (auto simp: report_name_def original_name_def generate_report_name_def truthy_def
        path_name_final_segment)

theorem report_name_resolution_witness:
  "report_name (fst (Report_init ''/shared/Sales/Revenue'' ''CSV'' None (Some ''rev'') False))
     = ''rev''
   \<and> original_name (fst (Report_init ''/shared/Sales/Revenue'' ''CSV'' None (Some ''rev'') False))
     = ''Revenue''
   \<and> report_name (fst (Report_init ''/shared/Sales/Revenue'' ''CSV'' None None False))
     = ''Revenue''"
  using report_name_resolution
          [of "fst (Report_init ''/shared/Sales/Revenue'' ''CSV'' None (Some ''rev'') False)"]
        report_name_resolution
          [of "fst (Report_init ''/shared/Sales/Revenue'' ''CSV'' None None False)"]
  by (simp add: Report_init_def post_init_def strip_and_log_def strip_def isspace_def
        truthy_def Let_def parse_path_def path_name_def)

text \<open>
  C8 as stated fails: with \<open>custom_report_name\<close> set to the empty string, the field
  holds the empty string after construction and \<open>report_name\<close> is the final segment of
  \<open>report_ref\<close> instead.
\<close>

theorem report_name_empty_custom_counterexample:
  "custom_report_name (fst (Report_init ''a/b/c'' ''PDF'' None (Some '''') False)) = Some ''''
   \<and> report_name (fst (Report_init ''a/b/c'' ''PDF'' None (Some '''') False)) = ''c''"
  by (simp add: Report_init_def post_init_def strip_and_log_def strip_def isspace_def
        truthy_def Let_def report_name_def generate_report_name_def parse_path_def
        path_name_def)

section \<open>The session scope\<close>

text \<open>
  C9. Whatever the logon call does (it returns a token, raises a fault, or raises
  anything else), the stored password is \<open>None\<close> when \<open>__enter__\<close> is left; the one
  call made is the logon, with the password as it was stored before.
\<close>

theorem enter_clears_password:
  "password (fst (snd (enter logon self))) = None
   \<and> snd (snd (enter logon self)) = [Logon (username self) (password self)]"
  by (cases logon) (simp_all add: enter_def Let_def)

lemma exit_no_token: "\<not> truthy (session_id s) \<Longrightarrow> exit lo s = (Inr (), s, [])"
  by (simp add: exit_def)

lemma exit_not_truthy: "\<not> truthy (session_id (fst (snd (exit lo s))))"
  by (auto simp: exit_def Let_def truthy_def split: outcome.splits option.splits)

lemma exit_calls_le: "length (snd (snd (exit lo s))) \<le> 1"
  by (auto simp: exit_def Let_def split: outcome.splits)

lemma exits_no_token: "\<not> truthy (session_id s) \<Longrightarrow> exits los s = (s, [])"
  by (induction los) (auto simp: exit_no_token)

lemma exits_at_most_one: "length (filter is_logoff (snd (exits los s))) \<le> 1"
proof (cases los)
  case Nil then show ?thesis by simp
next
  case (Cons lo rest)
  obtain r s1 c1 where e: "exit lo s = (r, s1, c1)" by (cases "exit lo s") auto
  have "\<not> truthy (session_id s1)" using exit_not_truthy[of lo s] e by simp
  then have "exits rest s1 = (s1, [])" by (rule exits_no_token)
  moreover have "length c1 \<le> 1" using exit_calls_le[of lo s] e by simp
  ultimately show ?thesis using Cons e
    by (simp add: le_trans[OF length_filter_le])
qed

text \<open>
  The session scope where the service answers or raises a fault, for a new session
  object: when logon raises a fault, \<open>__enter__\<close> raises \<open>LogonFailedError\<close> with the
  text of the fault, the \<open>with\<close> statement makes no logoff call, and \<open>__exit__\<close>
  called afterwards does nothing. When logon returns a non-empty token and logoff then
  raises a fault, \<open>LogoffFailedError\<close> with the text of the fault is raised and the
  stored token is cleared; the token is cleared whatever logoff does. However often
  \<open>__exit__\<close> runs after one \<open>__enter__\<close>, at most one logoff call is made.
\<close>

lemma session_scope_faults:
  "enter (RaisesFault m) (OBIEESession_init user pw)
     = (Inl (LogonFailedError (''Logon failed. '' @ m) (Fault m)),
        \<lparr>username = user, password = None, session_id = None\<rparr>,
        [Logon user (Some pw)])
   \<and> with_session (RaisesFault m) logoff (OBIEESession_init user pw)
     = (Inl (LogonFailedError (''Logon failed. '' @ m) (Fault m)),
        \<lparr>username = user, password = None, session_id = None\<rparr>,
        [Logon user (Some pw)])
   \<and> exit logoff (fst (snd (enter (RaisesFault m) (OBIEESession_init user pw))))
     = (Inr (), \<lparr>username = user, password = None, session_id = None\<rparr>, [])
   \<and> (tok \<noteq> [] \<longrightarrow>
        with_session (Returns tok) (RaisesFault m) (OBIEESession_init user pw)
          = (Inl (LogoffFailedError (''Logoff failed. '' @ m) (Fault m)),
             \<lparr>username = user, password = None, session_id = None\<rparr>,
             [Logon user (Some pw), Logoff tok]))
   \<and> (tok \<noteq> [] \<longrightarrow>
        session_id (fst (snd (with_session (Returns tok) logoff (OBIEESession_init user pw))))
          = None)
   \<and> length (filter is_logoff
        (snd (exits logoffs (fst (snd (enter logon (OBIEESession_init user pw))))))) \<le> 1"
proof (intro conjI)
  show "length (filter is_logoff
        (snd (exits logoffs (fst (snd (enter logon (OBIEESession_init user pw))))))) \<le> 1"
    by (rule exits_at_most_one)
qed (auto simp: enter_def exit_def with_session_def OBIEESession_init_def Let_def truthy_def
       split: outcome.splits)

lemma session_scope_faults_example:
  "with_session (Returns ''sid-1'') (RaisesFault ''gone'') (OBIEESession_init ''u'' ''pw'')
     = (Inl (LogoffFailedError ''Logoff failed. gone'' (Fault ''gone'')),
        \<lparr>username = ''u'', password = None, session_id = None\<rparr>,
        [Logon ''u'' (Some ''pw''), Logoff ''sid-1''])"
  using session_scope_faults [of "''gone''" "''u''" "''pw''" "Returns ()" "''sid-1''" "[]"
          "Returns ''sid-1''"]
  by simp

text \<open>
  C6, on the code. Logon returns the token \<open>sid-1\<close> and the logoff call then fails
  with an exception that is not a \<open>Fault\<close> (the connection is reset). \<open>__exit__\<close>
  catches \<open>Fault\<close> only: the logoff was attempted once and the token is cleared, but
  what leaves the scope is that exception as it is, not \<open>LogoffFailedError\<close>.
\<close>

theorem logoff_failure_not_wrapped:
  "with_session (Returns ''sid-1'') (RaisesException ''connection reset'')
      (OBIEESession_init ''u'' ''pw'')
     = (Inl (OtherException ''connection reset''),
        \<lparr>username = ''u'', password = None, session_id = None\<rparr>,
        [Logon ''u'' (Some ''pw''), Logoff ''sid-1''])"
  by (simp add: with_session_def enter_def exit_def OBIEESession_init_def truthy_def Let_def)

section \<open>The export orchestrator: the polling loop runs to completion\<close>


lemma wait_loop_Done:
  "wait_loop self q st ps tr = (Some (Inr res), rest, tr') \<Longrightarrow> exportStatus res = ''Done''"
proof (induction ps arbitrary: tr)
  case Nil
  then show ?case by simp
next
  case (Cons p ps)
  obtain response now where p: "p = (response, now)" by (cases p)
  show ?case
  proof (cases "\<exists>r. response = Returns r \<and> \<not> now - st > timeout self * 1000000
                  \<and> exportStatus r = ''InProgress'' \<and> \<not> status_check_interval self < 0")
    case True
    then have "wait_loop self q st ps (tr @ [StatusQuery q] @ [Sleep (status_check_interval self)])
                 = (Some (Inr res), rest, tr')"
      using Cons.prems p by (auto simp: Let_def)
    then show ?thesis by (rule Cons.IH)
  next
    case False
    then show ?thesis
      using Cons.prems p
      by (cases response) (auto simp: Let_def split: if_splits)
  qed
qed

lemma export_report_Done:
  "fst (export_report self report w) = Some (Inr res) \<Longrightarrow> exportStatus res = ''Done''"
  by (auto simp: export_report_def wait_for_export_completion_def
           split: prod.splits sum.splits option.splits dest: wait_loop_Done)

lemma wait_loop_completes:
  assumes "list_all (in_progress_in_time self st) pre"
    and "pre = [] \<or> 0 \<le> status_check_interval self"
    and "exportStatus res = ''Done''"
    and "t - st \<le> timeout self * 1000000"
  shows "wait_loop self q st (pre @ (Returns res, t) # rest) tr
           = (Some (Inr res), rest,
              tr @ concat (map (\<lambda>p. [StatusQuery q, Sleep (status_check_interval self)]) pre)
                 @ [StatusQuery q])"
  using assms
proof (induction pre arbitrary: tr)
  case Nil
  then show ?case by (simp add: Let_def)
next
  case (Cons p pre)
  obtain response now where p: "p = (response, now)" by (cases p)
  from Cons.prems(1) p obtain r where r: "response = Returns r"
    "exportStatus r = ''InProgress''" "\<not> now - st > timeout self * 1000000"
    by (cases response) auto
  have i: "0 \<le> status_check_interval self" using Cons.prems(2) by simp
  have "wait_loop self q st (pre @ (Returns res, t) # rest)
          (tr @ [StatusQuery q] @ [Sleep (status_check_interval self)])
        = (Some (Inr res), rest,
           (tr @ [StatusQuery q] @ [Sleep (status_check_interval self)])
             @ concat (map (\<lambda>p. [StatusQuery q, Sleep (status_check_interval self)]) pre)
             @ [StatusQuery q])"
    using Cons.prems i by (intro Cons.IH) auto
  then show ?case using p r i by (simp add: Let_def)
qed

lemma export_report_files: "files (snd (export_report self report w)) = files w"
  by (auto simp: export_report_def initiate_export_def wait_for_export_completion_def
           split: prod.splits sum.splits option.splits)


lemma export_report_completes:
  assumes "initiate w = Returns q"
    and "polls w = pre @ (Returns res, t) # rest"
    and "list_all (in_progress_in_time self (start_time w)) pre"
    and "pre = [] \<or> 0 \<le> status_check_interval self"
    and "exportStatus res = ''Done''"
    and "t - start_time w \<le> timeout self * 1000000"
  shows "export_report self report w
           = (Some (Inr res),
              w\<lparr>polls := rest,
                trace := trace w
                  @ [InitiateExport (report_ref report) (output_format report)
                       (execution_options report)]
                  @ concat (map (\<lambda>p. [StatusQuery q, Sleep (status_check_interval self)]) pre)
                  @ [StatusQuery q]\<rparr>)"
  using assms(1,2) wait_loop_completes[OF assms(3,4,5,6), of q rest
      "trace w @ [InitiateExport (report_ref report) (output_format report)
                       (execution_options report)]"]
  by (simp add: export_report_def initiate_export_def wait_for_export_completion_def)

section \<open>The file system\<close>

lemma extends_refl: "extends f f"
  by (simp add: extends_def)

lemma dir_at_present: "dir_at f k \<Longrightarrow> present_at f k"
  by (simp add: present_at_def)

lemma extends_dir_at: "extends f g \<Longrightarrow> dir_at f k \<Longrightarrow> dir_at g k"
  by (auto simp: extends_def dir_at_def present_at_def)

lemma extends_present_at: "extends f g \<Longrightarrow> present_at f k \<Longrightarrow> present_at g k"
  by (auto simp: extends_def present_at_def dir_at_def)

lemma extends_trans: "extends f g \<Longrightarrow> extends g h \<Longrightarrow> extends f h"
  unfolding extends_def by (metis extends_def extends_present_at)

lemma extends_walk:
  "extends f g \<Longrightarrow> walk f a st cs = Inr r \<Longrightarrow> walk g a st cs = Inr r"
  by (induction cs arbitrary: st) (auto simp: extends_dir_at split: if_splits)

lemma extends_path_exists:
  assumes "extends f g" and "path_exists f t"
  shows "path_exists g t"
proof -
  from assms(2) obtain st where w: "walk f (anchor t) [] (parts t) = Inr st"
    and pr: "present_at f (PosixPath (anchor t) st)"
    by (auto simp: path_exists_def resolve_def split: sum.splits)
  have "walk g (anchor t) [] (parts t) = Inr st"
    using assms(1) w by (rule extends_walk)
  then show ?thesis
    using extends_present_at[OF assms(1) pr] by (simp add: path_exists_def resolve_def)
qed

lemma os_mkdir_extends: "os_mkdir f p = Inr g \<Longrightarrow> extends f g"
  by (auto simp: os_mkdir_def extends_def split: sum.splits if_splits)

lemma mkdir_exist_ok_extends: "mkdir_exist_ok f p = Inr g \<Longrightarrow> extends f g"
  by (auto simp: mkdir_exist_ok_def extends_refl split: sum.splits if_splits
           dest: os_mkdir_extends)

lemma mkdir_parents_extends: "mkdir_parents f p = Inr g \<Longrightarrow> extends f g"
proof (induction f p arbitrary: g rule: mkdir_parents.induct)
  case (1 f p)
  show ?case
  proof (cases "os_mkdir f p")
    case (Inr fs)
    then show ?thesis using "1.prems" os_mkdir_extends
      by (subst (asm) mkdir_parents.simps) simp
  next
    case (Inl e)
    show ?thesis
    proof (cases "e = FileNotFoundError \<and> parts p \<noteq> []")
      case True
      then obtain fs1 where m: "mkdir_parents f (parent p) = Inr fs1"
        and k: "mkdir_exist_ok fs1 p = Inr g"
        using "1.prems" Inl
        by (subst (asm) mkdir_parents.simps) (auto split: sum.splits)
      have "extends f fs1" using "1.IH"[OF Inl _ _ m] True by simp
      then show ?thesis using mkdir_exist_ok_extends[OF k] by (rule extends_trans)
    next
      case False
      then have "g = f" using "1.prems" Inl
        by (subst (asm) mkdir_parents.simps) (auto split: if_splits)
      then show ?thesis by (simp add: extends_refl)
    qed
  qed
qed

lemma mkdir_parents_exists:
  "mkdir_parents fs0 p = Inr fs \<Longrightarrow> path_exists fs0 t \<Longrightarrow> path_exists fs t"
  by (blast intro: extends_path_exists mkdir_parents_extends)



lemma mkdir_parents_is_dir: "is_dir f p \<Longrightarrow> mkdir_parents f p = Inr f"
  by (subst mkdir_parents.simps)
     (auto simp: os_mkdir_def is_dir_def present_at_def split: sum.splits)

section \<open>The export orchestrator: saving\<close>

text \<open>
  C7. \<open>export_and_save\<close> with \<open>overwrite_existing=False\<close>, for a descriptor with an
  output folder. The export is initiated and polled to completion: the polls answer
  \<open>InProgress\<close> within the timeout, any number of times, and then \<open>Done\<close> within the
  timeout. The folder can be created (or is a directory already), and the target path,
  which is built from the MIME type of the \<open>Done\<close> answer, exists before the call.
  Then \<open>FileExistsError\<close> is raised. The events of the call are, in this order: the
  initiation, one status query and one wait for every \<open>InProgress\<close> answer, the status
  query answered \<open>Done\<close>, the creation of the folder, and the existence check; nothing
  is written. So the check comes only after the remote export has completed, and the
  polls consumed are exactly those of the export.
\<close>

theorem file_exists_checked_after_export:
  assumes "\<not> overwrite_existing self"
    and "output_folder report = Some folder"
    and "initiate w = Returns q"
    and "polls w = pre @ (Returns res, t) # rest"
    and "list_all (in_progress_in_time self (start_time w)) pre"
    and "pre = [] \<or> 0 \<le> status_check_interval self"
    and "exportStatus res = ''Done''"
    and "t - start_time w \<le> timeout self * 1000000"
    and "mkdir_parents (files w) (parse_path folder) = Inr fs"
    and "target = truediv (parse_path folder) (report_name report @ format_opt (gx (mimeType res)))"
    and "path_exists (files w) target"
  shows "fst (export_and_save gx self report w)
           = Some (Inl (FileExistsError
                (''File '' @ path_str target @ '' already exists and overwriting is disabled.'')))
       \<and> trace (snd (export_and_save gx self report w))
           = trace w
             @ [InitiateExport (report_ref report) (output_format report)
                  (execution_options report)]
             @ concat (map (\<lambda>p. [StatusQuery q, Sleep (status_check_interval self)]) pre)
             @ [StatusQuery q, Mkdir (parse_path folder), Exists target]
       \<and> polls (snd (export_and_save gx self report w)) = rest
       \<and> files (snd (export_and_save gx self report w)) = fs"
proof -
  have pe: "path_exists fs target"
    using mkdir_parents_exists[OF assms(9) assms(11)] .
  show ?thesis
    using assms(1,2,9) pe
    by (simp add: export_and_save_def export_report_completes[OF assms(3,4,5,6,7,8)]
          save_export_def get_output_file_path_def write_data_to_file_def get_extension_def
          Let_def assms(10)[symmetric])
qed

theorem file_exists_checked_after_export_witness:
  "fst (export_and_save example_guess_extension example_exporter example_report
          ((example_world
              [(Returns (example_result ''InProgress'' []), 1000000),
               (Returns (example_result ''InProgress'' []), 3000000),
               (Returns (example_result ''Done'' ''text/csv''), 5000000)])
             \<lparr>files := example_files\<rparr>))
     = Some (Inl (FileExistsError
                ''File out/Revenue.csv already exists and overwriting is disabled.''))
   \<and> trace (snd (export_and_save example_guess_extension example_exporter example_report
          ((example_world
              [(Returns (example_result ''InProgress'' []), 1000000),
               (Returns (example_result ''InProgress'' []), 3000000),
               (Returns (example_result ''Done'' ''text/csv''), 5000000)])
             \<lparr>files := example_files\<rparr>)))
     = [InitiateExport ''/shared/Sales/Revenue'' ''CSV'' (True, False, False),
        StatusQuery ''q1'', Sleep 2, StatusQuery ''q1'', Sleep 2, StatusQuery ''q1'',
        Mkdir (PosixPath [] [''out'']), Exists (PosixPath [] [''out'', ''Revenue.csv''])]"
proof -
  let ?w = "(example_world
              [(Returns (example_result ''InProgress'' []), 1000000),
               (Returns (example_result ''InProgress'' []), 3000000),
               (Returns (example_result ''Done'' ''text/csv''), 5000000)])
             \<lparr>files := example_files\<rparr>"
  let ?t = "PosixPath [] [''out'', ''Revenue.csv'']"
  have a1: "\<not> overwrite_existing example_exporter"
    by (simp add: example_exporter_def)
  have a2: "output_folder example_report = Some ''out''"
    by (simp add: example_report_def)
  have a3: "initiate ?w = Returns ''q1''"
    by (simp add: example_world_def)
  have a4: "polls ?w = [(Returns (example_result ''InProgress'' []), 1000000),
                        (Returns (example_result ''InProgress'' []), 3000000)]
                       @ (Returns (example_result ''Done'' ''text/csv''), 5000000) # []"
    by (simp add: example_world_def)
  have a5: "list_all (in_progress_in_time example_exporter (start_time ?w))
              [(Returns (example_result ''InProgress'' []), 1000000),
               (Returns (example_result ''InProgress'' []), 3000000)]"
    by (simp add: example_world_def example_result_def example_exporter_def)
  have a6: "[(Returns (example_result ''InProgress'' []), 1000000),
             (Returns (example_result ''InProgress'' []), 3000000)] = []
            \<or> 0 \<le> status_check_interval example_exporter"
    by (simp add: example_exporter_def)
  have a7: "exportStatus (example_result ''Done'' ''text/csv'') = ''Done''"
    by (simp add: example_result_def)
  have a8: "5000000 - start_time ?w \<le> timeout example_exporter * 1000000"
    by (simp add: example_world_def example_exporter_def)
  have "is_dir (files ?w) (parse_path ''out'')"
    by (simp add: is_dir_def resolve_def dir_at_def step_def example_world_def
          example_files_def parse_path_def splitroot_def)
  then have a9: "mkdir_parents (files ?w) (parse_path ''out'') = Inr (files ?w)"
    by (rule mkdir_parents_is_dir)
  have a10: "?t = truediv (parse_path ''out'')
                   (report_name example_report
                      @ format_opt (example_guess_extension
                                      (mimeType (example_result ''Done'' ''text/csv''))))"
    by (simp add: truediv_def parse_path_def splitroot_def path_str_def posix_join_def
          report_name_def generate_report_name_def path_name_def example_report_def
          truthy_def format_opt_def example_guess_extension_def example_result_def)
  have a11: "path_exists (files ?w) ?t"
    by (simp add: path_exists_def resolve_def dir_at_def present_at_def step_def
          example_world_def example_files_def)
  show ?thesis
    using file_exists_checked_after_export
            [where gx = example_guess_extension, OF a1 a2 a3 a4 a5 a6 a7 a8 a9 a10 a11]
    by (simp add: path_str_def example_world_def example_report_def example_exporter_def
          execution_options_def parse_path_def splitroot_def)
qed

text \<open>
  The folder \<open>out/..\<close> is the current directory: with \<open>out\<close> a directory and
  \<open>Revenue.csv\<close> present in the current directory, the target exists.
\<close>

lemma export_and_save_parent_folder:
  "fst (export_and_save example_guess_extension example_exporter
          (example_report\<lparr>output_folder := Some ''out/..''\<rparr>)
          ((example_world [(Returns (example_result ''Done'' ''text/csv''), 1000000)])
             \<lparr>files := [PosixPath [] [''out''] \<mapsto> Dir,
                        PosixPath [] [''Revenue.csv''] \<mapsto> File [1]]\<rparr>))
     = Some (Inl (FileExistsError
                ''File out/../Revenue.csv already exists and overwriting is disabled.''))"
proof -
  let ?fs = "[PosixPath [] [''out''] \<mapsto> Dir, PosixPath [] [''Revenue.csv''] \<mapsto> File [1]]"
  have "is_dir ?fs (PosixPath [] [''out'', ''..''])"
    by (simp add: is_dir_def resolve_def dir_at_def step_def)
  then have m: "mkdir_parents ?fs (PosixPath [] [''out'', ''..'']) = Inr ?fs"
    by (rule mkdir_parents_is_dir)
  have e: "path_exists ?fs (PosixPath [] [''out'', ''..'', ''Revenue.csv''])"
    by (simp add: path_exists_def resolve_def dir_at_def present_at_def step_def)
  show ?thesis
    using m e
    by (simp add: export_and_save_def export_report_def initiate_export_def
          wait_for_export_completion_def save_export_def get_output_file_path_def
          write_data_to_file_def get_extension_def Let_def example_world_def
          example_result_def example_exporter_def example_report_def
          example_guess_extension_def parse_path_def splitroot_def truediv_def
          path_str_def posix_join_def report_name_def generate_report_name_def
          path_name_def truthy_def format_opt_def)
qed










end
